theory Spec2Isabelle
  imports Complex_Main
begin

section \<open>JavaScript values\<close>

text \<open>
  The handlers receive JSON: \<open>req.body\<close> of the save handler is whatever the client posted.
  A field that is not in the object reads as \<open>undefined\<close>. A number is the rational
  value of its double; a JSON body cannot carry \<open>NaN\<close>.
\<close>

datatype jsval =
    JUndefined
  | JNull
  | JBool bool
  | JNum rat
  | JStr string
  | JArr "jsval list"
  | JObj "(string \<times> jsval) list"

text \<open>JavaScript's \<open>ToBoolean\<close>: \<open>!v\<close> is \<open>\<not> truthy v\<close>.\<close>

fun truthy :: "jsval \<Rightarrow> bool" where
  "truthy JUndefined = False"
| "truthy JNull = False"
| "truthy (JBool b) = b"
| "truthy (JNum n) = (n \<noteq> 0)"
| "truthy (JStr s) = (s \<noteq> [])"
| "truthy (JArr xs) = True"
| "truthy (JObj kvs) = True"

text \<open>
  Reading a property, as the destructuring \<open>const { a, b } = v\<close> does: it throws a
  \<open>TypeError\<close> on \<open>undefined\<close> and \<open>null\<close> (the result \<open>None\<close>), and reads
  \<open>undefined\<close> for a key the value does not have.
\<close>

fun get_prop :: "jsval \<Rightarrow> string \<Rightarrow> jsval option" where
  "get_prop JUndefined k = None"
| "get_prop JNull k = None"
| "get_prop (JObj kvs) k = Some (case map_of kvs k of None \<Rightarrow> JUndefined | Some v \<Rightarrow> v)"
| "get_prop v k = Some JUndefined"

text \<open>\<open>!s\<close> for a value that is a string or \<open>undefined\<close>.\<close>

fun truthy_str :: "string option \<Rightarrow> bool" where
  "truthy_str None = False"
| "truthy_str (Some s) = (s \<noteq> [])"

section \<open>Strings: \<open>substring\<close>, \<open>toUpperCase\<close>, base 36\<close>

text \<open>
  \<open>s.substring(a, b)\<close>: both indices are clamped to the length of the string, and swapped
  when the first is the larger.
\<close>

definition substring :: "nat \<Rightarrow> nat \<Rightarrow> string \<Rightarrow> string" where
  "substring a b s = take (max a b - min a b) (drop (min a b) s)"

definition upper_char :: "char \<Rightarrow> char" where
  "upper_char c =
     (case map_of (zip ''abcdefghijklmnopqrstuvwxyz'' ''ABCDEFGHIJKLMNOPQRSTUVWXYZ'') c of
        None \<Rightarrow> c
      | Some u \<Rightarrow> u)"

definition toUpperCase :: "string \<Rightarrow> string" where
  "toUpperCase s = map upper_char s"

text \<open>A character of the class \<open>[A-Z0-9]\<close>.\<close>

definition is_upper_alnum :: "char \<Rightarrow> bool" where
  "is_upper_alnum c = (c \<in> set ''ABCDEFGHIJKLMNOPQRSTUVWXYZ0123456789'')"

text \<open>A lower-case base-36 digit, \<open>[0-9a-z]\<close>, as \<open>toString(36)\<close> prints them.\<close>

definition is_digit36 :: "char \<Rightarrow> bool" where
  "is_digit36 c = (c \<in> set ''0123456789abcdefghijklmnopqrstuvwxyz'')"

text \<open>The pattern \<open>R_[A-Z0-9]{6}\<close>, anchored at both ends.\<close>

definition matches_shareId :: "string \<Rightarrow> bool" where
  "matches_shareId s =
     (length s = 8 \<and> take 2 s = ''R_'' \<and> list_all is_upper_alnum (drop 2 s))"

text \<open>
  \<open>Math.random()\<close> returns a double in the interval from 0 (included) to 1 (excluded), that
  is a dyadic fraction \<open>m / 2 ^ k\<close> with \<open>m < 2 ^ k\<close>. \<open>toString(36)\<close> prints \<open>0\<close> for zero
  and otherwise \<open>0.\<close> followed by base-36 digits of the fraction. The engine of Node.js
  takes the digits one by one from the fraction and stops as soon as what is left of it
  is below a bound, which starts at half the distance to the next double, at most
  \<open>1 / 2 ^ 54\<close>, and is multiplied by 36 with each digit; it rounds the last digit up when
  what is left is more than a half and within the bound of one. So it prints the first
  digits that identify the double, ten or eleven of them for most doubles.

  \<open>frac36\<close> computes the exact expansion, which ends after at most \<open>k\<close> digits since
  \<open>36 = 4 * 9\<close>. For \<open>k \<le> 20\<close> what is left after \<open>n\<close> digits is zero or a multiple of
  \<open>4 ^ n / 2 ^ k\<close> below one, the bound \<open>36 ^ n / 2 ^ 54\<close> is smaller than \<open>4 ^ n / 2 ^ k\<close>
  as long as digits are left, and the arithmetic is exact in doubles: the engine prints
  the exact expansion. \<open>toString36\<close> is defined for these doubles, and is \<open>None\<close> for
  the others.
\<close>

definition digit36 :: "nat \<Rightarrow> char" where
  "digit36 d = ''0123456789abcdefghijklmnopqrstuvwxyz'' ! d"

fun frac36 :: "nat \<Rightarrow> nat \<Rightarrow> nat \<Rightarrow> string" where
  "frac36 0 m k = []"
| "frac36 (Suc fuel) m k =
     (if m = 0 then []
      else digit36 ((36 * m) div 2 ^ k) # frac36 fuel ((36 * m) mod 2 ^ k) k)"

definition toString36 :: "nat \<Rightarrow> nat \<Rightarrow> string option" where
  "toString36 m k =
     (if m < 2 ^ k \<and> k \<le> 20
      then Some (if m = 0 then ''0'' else ''0.'' @ frac36 k m k)
      else None)"

section \<open>The result store (guardar\_resultado.js, obtener\_resultado.js)\<close>

text \<open>
  \<open>ResultadoSchema\<close>: a document of the collection. Mongoose adds \<open>_id\<close> and \<open>__v\<close> of its
  own, which no handler reads; they are left out.
\<close>

record resultado =
  uniqueId :: string
  timestamp :: nat
  puntuacion :: jsval
  respuestas :: jsval
  totalPreguntas :: jsval
  examen :: jsval

text \<open>
  The process-wide state behind \<open>mongoose\<close>: \<open>mongoose.connections[0].readyState\<close> (0 is
  disconnected) and the collection, in insertion order. \<open>attempts\<close> and \<open>established\<close> are
  counters of the calls of \<open>mongoose.connect\<close> and of those that resolved; no code reads them.
\<close>

record db =
  readyState :: nat
  docs :: "resultado list"
  attempts :: nat
  established :: nat

text \<open>
  What one invocation gets from outside the code:
  \<^item> \<open>connect_error\<close>: \<open>None\<close> when \<open>mongoose.connect(uri)\<close> resolves, the driver's message
    when it rejects;
  \<^item> \<open>rendered\<close>: the string \<open>Math.random().toString(36)\<close>;
  \<^item> \<open>now\<close>: \<open>Date.now()\<close>;
  \<^item> \<open>coerceNumber\<close>: what Mongoose's cast makes of a value that is not a number, for a
    path declared \<open>Number\<close> (a numeric string becomes its number, \<open>true\<close> becomes 1);
    \<open>None\<close> when it refuses the value and the document fails validation;
  \<^item> \<open>coerceArray\<close>: the same for a value that is not an array and a path declared
    \<open>Array\<close> (the value is wrapped in an array);
  \<^item> \<open>insert_error\<close>: \<open>None\<close> when the driver's \<open>insertOne\<close> goes through, its message when
    it rejects for a reason of its own (the network, the size of the document).
\<close>

record env =
  connect_error :: "string option"
  rendered :: string
  now :: nat
  coerceNumber :: "jsval \<Rightarrow> jsval option"
  coerceArray :: "jsval \<Rightarrow> jsval option"
  insert_error :: "string option"

datatype exn =
    NoSePudoConectar            \<comment> \<open>\<open>new Error("No se pudo conectar a la base de datos.")\<close>\<close>
  | DriverError string          \<comment> \<open>what \<open>mongoose.connect\<close> or \<open>insertOne\<close> rejected with\<close>
  | TypeError
  | ValidationError
  | DuplicateKey                \<comment> \<open>the unique index on \<open>uniqueId\<close>\<close>
  | SyntaxError                 \<comment> \<open>\<open>JSON.parse\<close>\<close>
  | ENOENT string               \<comment> \<open>a file that is not there\<close>
  | FormError string            \<comment> \<open>formidable's parse error\<close>
  | ProviderError string        \<comment> \<open>a rejected call of Gemini or Vision\<close>

text \<open>The \<open>error\<close> strings of the JSON bodies, one constructor for each literal of the source.\<close>

datatype message =
    SoloPOST                    \<comment> \<open>Solo se permiten peticiones POST.\<close>
  | SoloGET                     \<comment> \<open>Solo se permiten peticiones GET.\<close>
  | FaltanDatos                 \<comment> \<open>Faltan datos de resultados para guardar.\<close>
  | ErrorAlGuardar              \<comment> \<open>Error interno del servidor al guardar el resultado.\<close>
  | FaltaShareId                \<comment> \<open>Falta el parametro shareId.\<close>
  | NoEncontrado                \<comment> \<open>Resultado de examen no encontrado.\<close>
  | ErrorAlObtener              \<comment> \<open>Error interno del servidor al obtener el resultado.\<close>
  | NoSeEncontraronArchivos     \<comment> \<open>No se encontraron archivos de material de estudio.\<close>
  | FormatoInvalido             \<comment> \<open>La IA devolvio un formato invalido. Reintenta.\<close>
  | ErrorInternoServidor        \<comment> \<open>Error interno del servidor. Verifique la clave API ...\<close>
  | NingunArchivo               \<comment> \<open>No se ha subido ningun archivo.\<close>
  | ErrorGemini                 \<comment> \<open>Error al procesar la solicitud con Gemini. ...\<close>
  | NoArchivoClaveFile          \<comment> \<open>No se proporciono un archivo bajo la clave "file".\<close>
  | OcrFallo                    \<comment> \<open>OCR fallo: No se pudo extraer suficiente texto (minimo 50 caracteres).\<close>
  | ErrorServerless             \<comment> \<open>Error interno del servidor Serverless durante el proceso.\<close>

datatype payload =
    ErrorBody message                   \<comment> \<open>\<open>{ error }\<close>\<close>
  | ErrorDetails message exn            \<comment> \<open>\<open>{ error, details: error.message }\<close>\<close>
  | ErrorText message string            \<comment> \<open>\<open>{ error, details: jsonText }\<close>\<close>
  | Saved string                        \<comment> \<open>\<open>{ success: true, shareId }\<close>\<close>
  | Found resultado                     \<comment> \<open>\<open>{ success: true, resultado }\<close>\<close>
  | MessageExamen jsval                 \<comment> \<open>\<open>{ message, examen }\<close>\<close>
  | Json jsval                          \<comment> \<open>\<open>res.json(examenJSON)\<close>\<close>
  | StatusExamen string jsval           \<comment> \<open>\<open>{ status, tipo_solicitado, examen }\<close>\<close>
  | End                                 \<comment> \<open>\<open>res.end(...)\<close>\<close>

record response =
  status :: nat
  body :: payload

text \<open>
  How a handler's promise settles: it answered; it rejected with an exception before any
  answer; or it answered and an exception left the \<open>finally\<close> block afterwards.
\<close>

datatype outcome =
    Responded response
  | Unhandled exn
  | RespondedThenThrew response exn

record request =
  "method" :: string
  reqbody :: jsval
  query :: "(string \<times> string) list"

subsection \<open>guardar\_resultado.js\<close>

definition connectToDatabase :: "env \<Rightarrow> db \<Rightarrow> (exn + unit) \<times> db" where
  "connectToDatabase e st =
     (if readyState st \<noteq> 0 then (Inr (), st)
      else (case connect_error e of
              None \<Rightarrow>
                (Inr (), st\<lparr>readyState := 1, attempts := attempts st + 1,
                            established := established st + 1\<rparr>)
            | Some msg \<Rightarrow> (Inl NoSePudoConectar, st\<lparr>attempts := attempts st + 1\<rparr>)))"

definition generateUniqueId :: "string \<Rightarrow> string" where
  "generateUniqueId r = ''R_'' @ toUpperCase (substring 2 8 r)"

text \<open>
  Mongoose's casts for the paths of \<open>ResultadoSchema\<close>: a number is taken as it is for a
  path declared \<open>Number\<close>, an array as it is for a path declared \<open>Array\<close> (its elements
  are of any type). A path declared \<open>Object\<close> takes any value.
\<close>

definition castNumber :: "env \<Rightarrow> jsval \<Rightarrow> jsval option" where
  "castNumber e v = (case v of JNum n \<Rightarrow> Some (JNum n) | _ \<Rightarrow> coerceNumber e v)"

definition castArray :: "env \<Rightarrow> jsval \<Rightarrow> jsval option" where
  "castArray e v = (case v of JArr xs \<Rightarrow> Some (JArr xs) | _ \<Rightarrow> coerceArray e v)"

text \<open>
  What \<open>save()\<close> writes is the document's \<open>toObject()\<close>, a copy made by Mongoose's \<open>clone\<close>
  under the schema option \<open>minimize\<close>, which is on unless a schema turns it off (this one
  does not). The copy of an object leaves out the keys \<open>__proto__\<close>, \<open>constructor\<close> and
  \<open>prototype\<close> and every key whose copied value is \<open>undefined\<close>, and it is itself
  \<open>undefined\<close> when no key is left, unless the object is an element of an array. \<open>None\<close>
  is \<open>undefined\<close>.
\<close>

definition specialProperties :: "string list" where
  "specialProperties = [''__proto__'', ''constructor'', ''prototype'']"

fun clone :: "bool \<Rightarrow> jsval \<Rightarrow> jsval option"
  and cloneObject :: "(string \<times> jsval) list \<Rightarrow> (string \<times> jsval) list"
  and cloneArray :: "jsval list \<Rightarrow> jsval list" where
  "clone isArrayChild (JObj kvs) =
     (let ret = cloneObject kvs
      in if ret = [] \<and> \<not> isArrayChild then None else Some (JObj ret))"
| "clone isArrayChild (JArr xs) = Some (JArr (cloneArray xs))"
| "clone isArrayChild JUndefined = None"
| "clone isArrayChild JNull = Some JNull"
| "clone isArrayChild (JBool b) = Some (JBool b)"
| "clone isArrayChild (JNum n) = Some (JNum n)"
| "clone isArrayChild (JStr s) = Some (JStr s)"
| "cloneObject [] = []"
| "cloneObject ((k, v) # kvs) =
     (if k \<in> set specialProperties then cloneObject kvs
      else (case clone False v of
              None \<Rightarrow> cloneObject kvs
            | Some v' \<Rightarrow> (k, v') # cloneObject kvs))"
| "cloneArray [] = []"
| "cloneArray (x # xs) =
     (case clone True x of None \<Rightarrow> JUndefined | Some v \<Rightarrow> v) # cloneArray xs"

text \<open>The value of a path in the stored document; a path that was left out reads \<open>undefined\<close>.\<close>

definition stored :: "jsval \<Rightarrow> jsval" where
  "stored v = (case clone False v of None \<Rightarrow> JUndefined | Some v' \<Rightarrow> v')"

text \<open>
  \<open>new Resultado({...})\<close> followed by \<open>save()\<close>: the paths are cast and validated, the
  default of \<open>timestamp\<close> is taken, and the insertion of the minimized copy fails on the
  unique index when a document with this \<open>uniqueId\<close> is in the collection.
\<close>

definition Resultado_save ::
  "env \<Rightarrow> db \<Rightarrow> string \<Rightarrow> jsval \<Rightarrow> jsval \<Rightarrow> jsval \<Rightarrow> jsval \<Rightarrow> (exn + unit) \<times> db" where
  "Resultado_save e st uid p r t x =
     (case (castNumber e p, castNumber e t, castArray e x) of
        (Some p', Some t', Some x') \<Rightarrow>
          (if find (\<lambda>d. uniqueId d = uid) (docs st) \<noteq> None then (Inl DuplicateKey, st)
           else (case insert_error e of
                   Some msg \<Rightarrow> (Inl (DriverError msg), st)
                 | None \<Rightarrow>
                     (Inr (),
                      st\<lparr>docs := docs st @
                         [\<lparr>uniqueId = uid, timestamp = now e, puntuacion = stored p',
                           respuestas = stored r, totalPreguntas = stored t',
                           examen = stored x'\<rparr>]\<rparr>)))
      | _ \<Rightarrow> (Inl ValidationError, st))"

text \<open>The \<open>try\<close> block of the handler: \<open>Inl\<close> is an exception on its way to \<open>catch\<close>.\<close>

definition guardar_try :: "env \<Rightarrow> db \<Rightarrow> request \<Rightarrow> (exn + response) \<times> db" where
  "guardar_try e st req =
     (case connectToDatabase e st of
        (Inl err, st1) \<Rightarrow> (Inl err, st1)
      | (Inr u, st1) \<Rightarrow>
          (case (get_prop (reqbody req) ''puntuacion'', get_prop (reqbody req) ''respuestas'',
                 get_prop (reqbody req) ''totalPreguntas'', get_prop (reqbody req) ''examen'') of
             (Some p, Some r, Some t, Some x) \<Rightarrow>
               (if \<not> truthy p \<or> \<not> truthy r \<or> \<not> truthy t \<or> \<not> truthy x
                then (Inr \<lparr>status = 400, body = ErrorBody FaltanDatos\<rparr>, st1)
                else (let uid = generateUniqueId (rendered e)
                      in (case Resultado_save e st1 uid p r t x of
                            (Inl err, st2) \<Rightarrow> (Inl err, st2)
                          | (Inr u', st2) \<Rightarrow>
                              (Inr \<lparr>status = 201, body = Saved uid\<rparr>, st2))))
           | _ \<Rightarrow> (Inl TypeError, st1)))"

definition guardar_resultado_handler :: "env \<Rightarrow> db \<Rightarrow> request \<Rightarrow> outcome \<times> db" where
  "guardar_resultado_handler e st req =
     (if method req \<noteq> ''POST''
      then (Responded \<lparr>status = 405, body = ErrorBody SoloPOST\<rparr>, st)
      else (case guardar_try e st req of
              (Inl err, st') \<Rightarrow>
                (Responded \<lparr>status = 500, body = ErrorDetails ErrorAlGuardar err\<rparr>, st')
            | (Inr res, st') \<Rightarrow> (Responded res, st')))"

subsection \<open>obtener\_resultado.js\<close>

text \<open>This file's \<open>connectToDatabase\<close> has no \<open>catch\<close>: the driver's error goes on as it is.\<close>

definition connectToDatabase_obtener :: "env \<Rightarrow> db \<Rightarrow> (exn + unit) \<times> db" where
  "connectToDatabase_obtener e st =
     (if readyState st \<noteq> 0 then (Inr (), st)
      else (case connect_error e of
              None \<Rightarrow>
                (Inr (), st\<lparr>readyState := 1, attempts := attempts st + 1,
                            established := established st + 1\<rparr>)
            | Some msg \<Rightarrow> (Inl (DriverError msg), st\<lparr>attempts := attempts st + 1\<rparr>)))"

text \<open>\<open>Resultado.findOne({ uniqueId: shareId }).lean()\<close>: the first match, as plain data.\<close>

definition findOne :: "db \<Rightarrow> string \<Rightarrow> resultado option" where
  "findOne st sid = find (\<lambda>d. uniqueId d = sid) (docs st)"

definition obtener_try :: "env \<Rightarrow> db \<Rightarrow> string \<Rightarrow> (exn + response) \<times> db" where
  "obtener_try e st sid =
     (case connectToDatabase_obtener e st of
        (Inl err, st1) \<Rightarrow> (Inl err, st1)
      | (Inr u, st1) \<Rightarrow>
          (case findOne st1 sid of
             None \<Rightarrow> (Inr \<lparr>status = 404, body = ErrorBody NoEncontrado\<rparr>, st1)
           | Some d \<Rightarrow> (Inr \<lparr>status = 200, body = Found d\<rparr>, st1)))"

definition obtener_resultado_handler :: "env \<Rightarrow> db \<Rightarrow> request \<Rightarrow> outcome \<times> db" where
  "obtener_resultado_handler e st req =
     (if method req \<noteq> ''GET''
      then (Responded \<lparr>status = 405, body = ErrorBody SoloGET\<rparr>, st)
      else (let shareId = map_of (query req) ''shareId''
            in if \<not> truthy_str shareId
               then (Responded \<lparr>status = 400, body = ErrorBody FaltaShareId\<rparr>, st)
               else (case obtener_try e st (the shareId) of
                       (Inl err, st') \<Rightarrow>
                         (Responded \<lparr>status = 500, body = ErrorDetails ErrorAlObtener err\<rparr>, st')
                     | (Inr res, st') \<Rightarrow> (Responded res, st'))))"

section \<open>Exam generation (three versions of generar\_examen.js)\<close>

text \<open>
  A JavaScript string is modelled as the list of its UTF-16 code units, so that \<open>length\<close>
  is the length of the list; \<open>char\<close> has 256 values, the code units up to 255.
\<close>

text \<open>
  A file as formidable reports it, with the bytes it wrote to \<open>filepath\<close>. \<open>mimetype\<close>
  is \<open>null\<close> when the part declared none.
\<close>

record upfile =
  filepath :: string
  mimetype :: "string option"
  content :: string

text \<open>
  An entry of formidable's \<open>fields\<close> and \<open>files\<close> objects is an array (version 3) or a
  single value (version 2); the handlers test for both.
\<close>

datatype sval = SOne string | SMany "string list"

datatype fval = FOne upfile | FMany "upfile list"

datatype form =
    FormFails string
  | Form "(string \<times> sval) list" "(string \<times> fval) list"

record multipart_request =
  mp_method :: string
  mp_form :: form

datatype prompt =
    UserPrompt string           \<comment> \<open>the direct-image version's \<open>userPrompt\<close>, with \<open>examType\<close>\<close>
  | TutorPrompt string          \<comment> \<open>the multi-file version's text, with \<open>examType\<close>\<close>
  | MaterialPrompt string string  \<comment> \<open>the OCR version's \<open>prompt\<close>: \<open>examType\<close>, \<open>studyText\<close>\<close>

datatype part =
    InlineData string "string option"     \<comment> \<open>\<open>{ inlineData: { data, mimeType } }\<close>\<close>
  | Text prompt

datatype event =
    Created string
  | ReadFile string
  | Unlinked string
  | OcrCalled string
  | GenerateCalled string "part list"

text \<open>The temporary directory, and what the handler did so far, oldest first.\<close>

record world =
  disk :: "string \<rightharpoonup> string"
  log :: "event list"

datatype 'a settled = Rejects string | Resolves 'a

text \<open>
  The libraries and providers:
  \<^item> \<open>base64\<close>: \<open>buffer.toString("base64")\<close>;
  \<^item> \<open>generateContent\<close>: the model's name and the contents to \<open>response.text\<close>, which may
    be \<open>undefined\<close>;
  \<^item> \<open>documentTextDetection\<close>: the image to \<open>result.fullTextAnnotation?.text\<close>;
  \<^item> \<open>JSON_parse\<close>: \<open>None\<close> when \<open>JSON.parse\<close> throws.
\<close>

record services =
  base64 :: "string \<Rightarrow> string"
  generateContent :: "string \<Rightarrow> part list \<Rightarrow> string option settled"
  documentTextDetection :: "string \<Rightarrow> string option settled"
  JSON_parse :: "string \<Rightarrow> jsval option"

definition is_space :: "char \<Rightarrow> bool" where
  "is_space c = (c \<in> set [CHR 0x09, CHR 0x0A, CHR 0x0B, CHR 0x0C, CHR 0x0D, CHR 0x20, CHR 0xA0])"

text \<open>\<open>s.trim()\<close>, on the white space that fits a \<open>char\<close>.\<close>

definition trim :: "string \<Rightarrow> string" where
  "trim s = rev (dropWhile is_space (rev (dropWhile is_space s)))"

text \<open>5 preguntas de opcion multiple, with its two accented letters.\<close>

definition default_examType :: string where
  "default_examType = ''5 preguntas de opci'' @ [CHR 0xF3] @ ''n m'' @ [CHR 0xFA] @ ''ltiple''"

text \<open>\<open>v || '5 preguntas ...'\<close>\<close>

definition or_default :: "string option \<Rightarrow> string" where
  "or_default v = (if truthy_str v then the v else default_examType)"

text \<open>\<open>Array.isArray(v) ? v[0] : v\<close>\<close>

fun first_or_self :: "sval \<Rightarrow> string option" where
  "first_or_self (SOne s) = Some s"
| "first_or_self (SMany []) = None"
| "first_or_self (SMany (s # ss)) = Some s"

text \<open>\<open>v[0]\<close> on a field: the first element of an array, the first character of a string.\<close>

fun field_index0 :: "sval \<Rightarrow> string option" where
  "field_index0 (SOne []) = None"
| "field_index0 (SOne (c # cs)) = Some [c]"
| "field_index0 (SMany []) = None"
| "field_index0 (SMany (s # ss)) = Some s"

text \<open>\<open>v[0]\<close> on an entry of \<open>files\<close>: a single file object has no property \<open>0\<close>.\<close>

fun file_index0 :: "fval \<Rightarrow> upfile option" where
  "file_index0 (FOne f) = None"
| "file_index0 (FMany []) = None"
| "file_index0 (FMany (f # fs)) = Some f"

fun files_of :: "fval \<Rightarrow> upfile list" where
  "files_of (FOne f) = [f]"
| "files_of (FMany fs) = fs"

text \<open>Every file of the request, whatever the name of its field.\<close>

definition all_uploads :: "(string \<times> fval) list \<Rightarrow> upfile list" where
  "all_uploads files = concat (map (\<lambda>kv. files_of (snd kv)) files)"

fun store :: "upfile list \<Rightarrow> world \<Rightarrow> world" where
  "store [] w = w"
| "store (f # fs) w =
     store fs (w\<lparr>disk := (disk w)(filepath f \<mapsto> content f),
                 log := log w @ [Created (filepath f)]\<rparr>)"

text \<open>
  \<open>form.parse\<close>: formidable writes each uploaded file to the temporary directory and
  calls back with \<open>fields\<close> and \<open>files\<close>, or with an error.
\<close>

definition formidable_parse ::
  "multipart_request \<Rightarrow> world \<Rightarrow>
     (exn + (string \<times> sval) list \<times> (string \<times> fval) list) \<times> world" where
  "formidable_parse req w =
     (case mp_form req of
        FormFails msg \<Rightarrow> (Inl (FormError msg), w)
      | Form flds files \<Rightarrow> (Inr (flds, files), store (all_uploads files) w))"

definition readFile :: "string \<Rightarrow> world \<Rightarrow> (exn + string) \<times> world" where
  "readFile p w =
     (case disk w p of
        None \<Rightarrow> (Inl (ENOENT p), w)
      | Some buf \<Rightarrow> (Inr buf, w\<lparr>log := log w @ [ReadFile p]\<rparr>))"

definition unlinkSync :: "string \<Rightarrow> world \<Rightarrow> (exn + unit) \<times> world" where
  "unlinkSync p w =
     (case disk w p of
        None \<Rightarrow> (Inl (ENOENT p), w)
      | Some buf \<Rightarrow> (Inr (), w\<lparr>disk := (disk w)(p := None), log := log w @ [Unlinked p]\<rparr>))"

definition call_generateContent ::
  "services \<Rightarrow> string \<Rightarrow> part list \<Rightarrow> world \<Rightarrow> string option settled \<times> world" where
  "call_generateContent sv model contents w =
     (generateContent sv model contents, w\<lparr>log := log w @ [GenerateCalled model contents]\<rparr>)"

definition call_documentTextDetection ::
  "services \<Rightarrow> string \<Rightarrow> world \<Rightarrow> string option settled \<times> world" where
  "call_documentTextDetection sv buf w =
     (documentTextDetection sv buf, w\<lparr>log := log w @ [OcrCalled buf]\<rparr>)"

subsection \<open>The direct-image version\<close>

text \<open>
  The loop over \<open>inputFiles\<close>: a file is read when \<open>file.filepath\<close> and \<open>file.mimetype\<close>
  are truthy; a failed read leaves the loop with the exception.
\<close>

fun imageParts_of :: "services \<Rightarrow> upfile list \<Rightarrow> world \<Rightarrow> (exn + part list) \<times> world" where
  "imageParts_of sv [] w = (Inr [], w)"
| "imageParts_of sv (f # fs) w =
     (if filepath f \<noteq> [] \<and> truthy_str (mimetype f)
      then (case readFile (filepath f) w of
              (Inl err, w1) \<Rightarrow> (Inl err, w1)
            | (Inr buf, w1) \<Rightarrow>
                (case imageParts_of sv fs w1 of
                   (Inl err, w2) \<Rightarrow> (Inl err, w2)
                 | (Inr ps, w2) \<Rightarrow> (Inr (InlineData (base64 sv buf) (mimetype f) # ps), w2)))
      else imageParts_of sv fs w)"

definition imagenes_try ::
  "services \<Rightarrow> world \<Rightarrow> multipart_request \<Rightarrow> (exn + response) \<times> world" where
  "imagenes_try sv w req =
     (case formidable_parse req w of
        (Inl err, w1) \<Rightarrow> (Inl err, w1)
      | (Inr (flds, files), w1) \<Rightarrow>
          (let examType = or_default (case map_of flds ''exam_type'' of
                                        None \<Rightarrow> None
                                      | Some v \<Rightarrow> first_or_self v);
               inputFiles = (case map_of files ''files'' of
                               None \<Rightarrow> []
                             | Some (FMany fs) \<Rightarrow> fs
                             | Some (FOne f) \<Rightarrow> [f])
           in if length inputFiles = 0
              then (Inr \<lparr>status = 400, body = ErrorBody NoSeEncontraronArchivos\<rparr>, w1)
              else (case imageParts_of sv inputFiles w1 of
                      (Inl err, w2) \<Rightarrow> (Inl err, w2)
                    | (Inr imageParts, w2) \<Rightarrow>
                        (case call_generateContent sv ''gemini-2.5-flash-preview-09-2025''
                                (imageParts @ [Text (UserPrompt examType)]) w2 of
                           (Rejects msg, w3) \<Rightarrow> (Inl (ProviderError msg), w3)
                         | (Resolves None, w3) \<Rightarrow> (Inl TypeError, w3)
                         | (Resolves (Some txt), w3) \<Rightarrow>
                             (let jsonText = trim txt
                              in (case JSON_parse sv jsonText of
                                    None \<Rightarrow>
                                      (Inr \<lparr>status = 500,
                                            body = ErrorText FormatoInvalido jsonText\<rparr>, w3)
                                  | Some parsedJson \<Rightarrow>
                                      (Inr \<lparr>status = 200,
                                            body = MessageExamen parsedJson\<rparr>, w3)))))))"

definition generar_examen_imagenes_handler ::
  "services \<Rightarrow> world \<Rightarrow> multipart_request \<Rightarrow> outcome \<times> world" where
  "generar_examen_imagenes_handler sv w req =
     (if mp_method req \<noteq> ''POST''
      then (Responded \<lparr>status = 405, body = End\<rparr>, w)
      else (case imagenes_try sv w req of
              (Inl err, w') \<Rightarrow>
                (Responded \<lparr>status = 500, body = ErrorDetails ErrorInternoServidor err\<rparr>, w')
            | (Inr res, w') \<Rightarrow> (Responded res, w')))"

subsection \<open>The multi-file version\<close>

text \<open>\<open>Array.isArray(files.files) ? files.files : [files.files]\<close>; \<open>None\<close> is \<open>undefined\<close>.\<close>

definition uploadedFiles_of :: "(string \<times> fval) list \<Rightarrow> upfile option list" where
  "uploadedFiles_of files =
     (case map_of files ''files'' of
        None \<Rightarrow> [None]
      | Some (FMany fs) \<Rightarrow> map Some fs
      | Some (FOne f) \<Rightarrow> [Some f])"

text \<open>The first \<open>forEach\<close>: \<open>readFileSync\<close> of each file that has a \<open>filepath\<close>.\<close>

fun prompt_parts :: "services \<Rightarrow> upfile option list \<Rightarrow> world \<Rightarrow> (exn + part list) \<times> world" where
  "prompt_parts sv [] w = (Inr [], w)"
| "prompt_parts sv (None # fs) w = prompt_parts sv fs w"
| "prompt_parts sv (Some f # fs) w =
     (if filepath f \<noteq> []
      then (case readFile (filepath f) w of
              (Inl err, w1) \<Rightarrow> (Inl err, w1)
            | (Inr buf, w1) \<Rightarrow>
                (case prompt_parts sv fs w1 of
                   (Inl err, w2) \<Rightarrow> (Inl err, w2)
                 | (Inr ps, w2) \<Rightarrow> (Inr (InlineData (base64 sv buf) (mimetype f) # ps), w2)))
      else prompt_parts sv fs w)"

text \<open>
  The \<open>forEach\<close> of the \<open>finally\<close> block: \<open>unlinkSync\<close> of each file that has a
  \<open>filepath\<close>, with nothing to catch what it throws.
\<close>

fun unlink_each :: "upfile option list \<Rightarrow> world \<Rightarrow> (exn + unit) \<times> world" where
  "unlink_each [] w = (Inr (), w)"
| "unlink_each (None # fs) w = unlink_each fs w"
| "unlink_each (Some f # fs) w =
     (if filepath f \<noteq> []
      then (case unlinkSync (filepath f) w of
              (Inl err, w1) \<Rightarrow> (Inl err, w1)
            | (Inr u, w1) \<Rightarrow> unlink_each fs w1)
      else unlink_each fs w)"

definition generar_examen_try ::
  "services \<Rightarrow> world \<Rightarrow> upfile option list \<Rightarrow> string \<Rightarrow> (exn + response) \<times> world" where
  "generar_examen_try sv w uploadedFiles examType =
     (case prompt_parts sv uploadedFiles w of
        (Inl err, w1) \<Rightarrow> (Inl err, w1)
      | (Inr ps, w1) \<Rightarrow>
          (case call_generateContent sv ''gemini-2.5-flash''
                  (ps @ [Text (TutorPrompt examType)]) w1 of
             (Rejects msg, w2) \<Rightarrow> (Inl (ProviderError msg), w2)
           | (Resolves None, w2) \<Rightarrow> (Inl TypeError, w2)
           | (Resolves (Some txt), w2) \<Rightarrow>
               (case JSON_parse sv (trim txt) of
                  None \<Rightarrow> (Inl SyntaxError, w2)
                | Some examenJSON \<Rightarrow> (Inr \<lparr>status = 200, body = Json examenJSON\<rparr>, w2))))"

definition generar_examen_handler ::
  "services \<Rightarrow> world \<Rightarrow> multipart_request \<Rightarrow> outcome \<times> world" where
  "generar_examen_handler sv w req =
     (if mp_method req = ''OPTIONS'' then (Responded \<lparr>status = 200, body = End\<rparr>, w)
      else if mp_method req \<noteq> ''POST''
      then (Responded \<lparr>status = 405, body = ErrorBody SoloPOST\<rparr>, w)
      else (case formidable_parse req w of
              (Inl err, w1) \<Rightarrow> (Unhandled err, w1)
            | (Inr (flds, files), w1) \<Rightarrow>
                (let uploadedFiles = uploadedFiles_of files;
                     examType = or_default (case map_of flds ''exam_type'' of
                                              None \<Rightarrow> None
                                            | Some v \<Rightarrow> field_index0 v)
                 in if length uploadedFiles = 0 \<or> hd uploadedFiles = None
                    then (Responded \<lparr>status = 400, body = ErrorBody NingunArchivo\<rparr>, w1)
                    else (case generar_examen_try sv w1 uploadedFiles examType of
                            (r, w2) \<Rightarrow>
                              (let res = (case r of
                                            Inl apiError \<Rightarrow>
                                              \<lparr>status = 500,
                                               body = ErrorDetails ErrorGemini apiError\<rparr>
                                          | Inr ok \<Rightarrow> ok)
                               in (case unlink_each uploadedFiles w2 of
                                     (Inl err, w3) \<Rightarrow> (RespondedThenThrew res err, w3)
                                   | (Inr u, w3) \<Rightarrow> (Responded res, w3)))))))"

subsection \<open>The OCR version\<close>

text \<open>
  \<open>parseForm\<close>: formidable's result with every entry replaced by its \<open>[0]\<close>. The handler
  reads \<open>fields.exam_type\<close> and \<open>files.file\<close> only.
\<close>

definition parseForm ::
  "multipart_request \<Rightarrow> world \<Rightarrow> (exn + string option \<times> upfile option) \<times> world" where
  "parseForm req w =
     (case formidable_parse req w of
        (Inl err, w1) \<Rightarrow> (Inl err, w1)
      | (Inr (flds, files), w1) \<Rightarrow>
          (Inr ((case map_of flds ''exam_type'' of None \<Rightarrow> None | Some v \<Rightarrow> field_index0 v),
                (case map_of files ''file'' of None \<Rightarrow> None | Some v \<Rightarrow> file_index0 v)), w1))"

text \<open>
  The \<open>try\<close> block, from the assignment of \<open>filePath\<close> on. \<open>!studyText\<close> holds for
  \<open>undefined\<close> and for the empty string.
\<close>

definition ocr_steps ::
  "services \<Rightarrow> world \<Rightarrow> string \<Rightarrow> string \<Rightarrow> (exn + response) \<times> world" where
  "ocr_steps sv w filePath examType =
     (case readFile filePath w of
        (Inl err, w1) \<Rightarrow> (Inl err, w1)
      | (Inr imageContent, w1) \<Rightarrow>
          (case call_documentTextDetection sv imageContent w1 of
             (Rejects msg, w2) \<Rightarrow> (Inl (ProviderError msg), w2)
           | (Resolves studyText, w2) \<Rightarrow>
               (if \<not> truthy_str studyText \<or> length (the studyText) < 50
                then (Inr \<lparr>status = 500, body = ErrorBody OcrFallo\<rparr>, w2)
                else (case call_generateContent sv ''gemini-2.5-pro''
                             [Text (MaterialPrompt examType (the studyText))] w2 of
                        (Rejects msg, w3) \<Rightarrow> (Inl (ProviderError msg), w3)
                      | (Resolves None, w3) \<Rightarrow> (Inl SyntaxError, w3)
                      | (Resolves (Some txt), w3) \<Rightarrow>
                          (case JSON_parse sv txt of
                             None \<Rightarrow> (Inl SyntaxError, w3)
                           | Some examJson \<Rightarrow>
                               (Inr \<lparr>status = 200,
                                     body = StatusExamen examType examJson\<rparr>, w3))))))"

text \<open>
  The whole \<open>try\<close> block. The second component is \<open>filePath\<close> as the \<open>finally\<close> block
  finds it: \<open>None\<close> is the initial \<open>null\<close>.
\<close>

definition ocr_try ::
  "services \<Rightarrow> world \<Rightarrow> multipart_request \<Rightarrow> ((exn + response) \<times> string option) \<times> world" where
  "ocr_try sv w req =
     (case parseForm req w of
        (Inl err, w1) \<Rightarrow> ((Inl err, None), w1)
      | (Inr (exam_type, file), w1) \<Rightarrow>
          (case file of
             None \<Rightarrow> ((Inr \<lparr>status = 400, body = ErrorBody NoArchivoClaveFile\<rparr>, None), w1)
           | Some f \<Rightarrow>
               (case ocr_steps sv w1 (filepath f) (or_default exam_type) of
                  (r, w2) \<Rightarrow> ((r, Some (filepath f)), w2))))"

text \<open>The \<open>finally\<close> block: the exception of \<open>unlinkSync\<close> is caught and logged.\<close>

definition ocr_finally :: "string option \<Rightarrow> world \<Rightarrow> world" where
  "ocr_finally filePath w =
     (if truthy_str filePath then snd (unlinkSync (the filePath) w) else w)"

definition generar_examen_ocr_handler ::
  "services \<Rightarrow> world \<Rightarrow> multipart_request \<Rightarrow> outcome \<times> world" where
  "generar_examen_ocr_handler sv w req =
     (if mp_method req \<noteq> ''POST''
      then (Responded \<lparr>status = 405, body = ErrorBody SoloPOST\<rparr>, w)
      else (case ocr_try sv w req of
              ((r, filePath), w1) \<Rightarrow>
                (Responded (case r of
                              Inl err \<Rightarrow>
                                \<lparr>status = 500, body = ErrorDetails ErrorServerless err\<rparr>
                            | Inr res \<Rightarrow> res),
                 ocr_finally filePath w1)))"

subsection \<open>What a run leaves behind\<close>

fun is_provider_call :: "event \<Rightarrow> bool" where
  "is_provider_call (OcrCalled buf) = True"
| "is_provider_call (GenerateCalled model contents) = True"
| "is_provider_call ev = False"

definition provider_calls :: "world \<Rightarrow> event list" where
  "provider_calls w = filter is_provider_call (log w)"

text \<open>How many times \<open>p\<close> was deleted.\<close>

definition unlinks :: "string \<Rightarrow> world \<Rightarrow> nat" where
  "unlinks p w = count_list (log w) (Unlinked p)"

fun is_generate :: "event \<Rightarrow> bool" where
  "is_generate (GenerateCalled model contents) = True"
| "is_generate ev = False"

definition generate_calls :: "world \<Rightarrow> event list" where
  "generate_calls w = filter is_generate (log w)"

section \<open>Sequences of invocations in one process\<close>

datatype invocation = Guardar env request | Obtener env request

fun invoke :: "db \<Rightarrow> invocation \<Rightarrow> db" where
  "invoke st (Guardar e req) = snd (guardar_resultado_handler e st req)"
| "invoke st (Obtener e req) = snd (obtener_resultado_handler e st req)"

definition run :: "db \<Rightarrow> invocation list \<Rightarrow> db" where
  "run st invs = foldl invoke st invs"

text \<open>The state of a process that has just started.\<close>

definition fresh :: db where
  "fresh = \<lparr>readyState = 0, docs = [], attempts = 0, established = 0\<rparr>"

text \<open>One connection was established if the state is not disconnected, none otherwise.\<close>

definition connected_once :: "db \<Rightarrow> bool" where
  "connected_once st = (established st = (if readyState st = 0 then 0 else 1))"

section \<open>Example inputs\<close>

text \<open>Coercions that turn the string \<open>8\<close> into the number and wrap what is not an array.\<close>

fun example_coerceNumber :: "jsval \<Rightarrow> jsval option" where
  "example_coerceNumber (JStr s) = (if s = ''8'' then Some (JNum 8) else None)"
| "example_coerceNumber (JBool b) = Some (JNum (if b then 1 else 0))"
| "example_coerceNumber v = None"

definition example_coerceArray :: "jsval \<Rightarrow> jsval option" where
  "example_coerceArray v = Some (JArr [v])"

definition example_env :: env where
  "example_env = \<lparr>connect_error = None, rendered = ''0.4fzyo82mvyr'', now = 1700000000,
     coerceNumber = example_coerceNumber, coerceArray = example_coerceArray,
     insert_error = None\<rparr>"

text \<open>A later invocation, with another random number.\<close>

definition example_env_later :: env where
  "example_env_later = \<lparr>connect_error = None, rendered = ''0.zk3x9q7'', now = 1700000060,
     coerceNumber = example_coerceNumber, coerceArray = example_coerceArray,
     insert_error = None\<rparr>"

definition example_down :: env where
  "example_down = \<lparr>connect_error = Some ''ECONNREFUSED'', rendered = ''0.4fzyo82mvyr'',
     now = 1700000000, coerceNumber = example_coerceNumber, coerceArray = example_coerceArray,
     insert_error = None\<rparr>"

definition example_exam :: jsval where
  "example_exam = JArr [JObj [(''id'', JStr ''q1''), (''respuesta_correcta'', JStr ''a'')]]"

definition example_answers :: jsval where
  "example_answers = JObj [(''q1'', JStr ''a'')]"

definition example_save :: request where
  "example_save = \<lparr>method = ''POST'',
     reqbody = JObj [(''puntuacion'', JNum 8), (''respuestas'', example_answers),
                     (''totalPreguntas'', JNum 10), (''examen'', example_exam)],
     query = []\<rparr>"

text \<open>A result with no question answered, and one whose score came as a string.\<close>

definition empty_answers_save :: request where
  "empty_answers_save = \<lparr>method = ''POST'',
     reqbody = JObj [(''puntuacion'', JNum 8), (''respuestas'', JObj []),
                     (''totalPreguntas'', JNum 10), (''examen'', example_exam)],
     query = []\<rparr>"

definition string_score_save :: request where
  "string_score_save = \<lparr>method = ''POST'',
     reqbody = JObj [(''puntuacion'', JStr ''8''), (''respuestas'', example_answers),
                     (''totalPreguntas'', JNum 10), (''examen'', example_exam)],
     query = []\<rparr>"

definition other_save :: request where
  "other_save = \<lparr>method = ''POST'',
     reqbody = JObj [(''puntuacion'', JNum 3), (''respuestas'', JObj [(''q1'', JStr ''c'')]),
                     (''totalPreguntas'', JNum 10), (''examen'', example_exam)],
     query = []\<rparr>"

text \<open>A result with no correct answer.\<close>

definition zero_score_save :: request where
  "zero_score_save = \<lparr>method = ''POST'',
     reqbody = JObj [(''puntuacion'', JNum 0), (''respuestas'', example_answers),
                     (''totalPreguntas'', JNum 10), (''examen'', example_exam)],
     query = []\<rparr>"

definition incomplete_save :: request where
  "incomplete_save = \<lparr>method = ''POST'',
     reqbody = JObj [(''puntuacion'', JNum 8), (''respuestas'', example_answers),
                     (''examen'', example_exam)],
     query = []\<rparr>"

definition example_doc :: resultado where
  "example_doc = \<lparr>uniqueId = ''R_4FZYO8'', timestamp = 1700000000, puntuacion = JNum 8,
     respuestas = example_answers, totalPreguntas = JNum 10, examen = example_exam\<rparr>"

definition example_saved :: db where
  "example_saved = \<lparr>readyState = 1, docs = [example_doc], attempts = 1, established = 1\<rparr>"

definition example_get :: request where
  "example_get = \<lparr>method = ''GET'', reqbody = JUndefined, query = [(''shareId'', ''R_4FZYO8'')]\<rparr>"

definition example_get_other :: request where
  "example_get_other = \<lparr>method = ''GET'', reqbody = JUndefined, query = [(''shareId'', ''R_000000'')]\<rparr>"

definition example_image :: upfile where
  "example_image = \<lparr>filepath = ''/tmp/a1'', mimetype = Some ''image/png'', content = ''PNG''\<rparr>"

definition example_upload :: multipart_request where
  "example_upload = \<lparr>mp_method = ''POST'', mp_form = Form [] [(''files'', FMany [example_image])]\<rparr>"

definition example_upload_file :: multipart_request where
  "example_upload_file = \<lparr>mp_method = ''POST'', mp_form = Form [] [(''file'', FMany [example_image])]\<rparr>"

definition empty_upload :: multipart_request where
  "empty_upload = \<lparr>mp_method = ''POST'', mp_form = Form [] []\<rparr>"

text \<open>Providers that answer: the OCR finds \<open>n\<close> characters, the model answers \<open>{}\<close>.\<close>

definition example_services :: "nat \<Rightarrow> services" where
  "example_services n = \<lparr>base64 = (\<lambda>buf. buf),
     generateContent = (\<lambda>model contents. Resolves (Some ''{}'')),
     documentTextDetection = (\<lambda>buf. Resolves (Some (replicate n (CHR ''a'')))),
     JSON_parse = (\<lambda>s. if s = ''{}'' then Some (JObj []) else None)\<rparr>"

definition empty_world :: world where
  "empty_world = \<lparr>disk = Map.empty, log = []\<rparr>"

section \<open>Facts about lists and about the steps\<close>



lemma find_distinct_key:
  "distinct (map f xs) \<Longrightarrow> d \<in> set xs \<Longrightarrow> find (\<lambda>y. f y = f d) xs = Some d"
  by (induction xs) (auto split: if_splits)

lemma find_None_iff_key: "(find (\<lambda>y. f y = k) xs = None) = (k \<notin> f ` set xs)"
  by (induction xs) auto

lemmas example_defs =
  example_env_def example_env_later_def example_down_def example_exam_def example_answers_def
  example_save_def empty_answers_save_def string_score_save_def other_save_def
  zero_score_save_def incomplete_save_def example_doc_def example_saved_def example_get_def
  example_get_other_def fresh_def

lemmas upload_defs =
  example_image_def example_upload_def example_upload_file_def empty_upload_def
  example_services_def empty_world_def

lemmas id_defs = generateUniqueId_def substring_def toUpperCase_def upper_char_def

lemma connectToDatabase_cases:
  "connectToDatabase e st = (r, st1) \<Longrightarrow>
     docs st1 = docs st \<and> (r = Inr () \<longrightarrow> readyState st1 \<noteq> 0) \<and>
     (connected_once st \<longrightarrow> connected_once st1)"
  by (auto simp: connectToDatabase_def connected_once_def split: if_splits option.splits)

lemma connectToDatabase_obtener_cases:
  "connectToDatabase_obtener e st = (r, st1) \<Longrightarrow>
     docs st1 = docs st \<and> (r = Inr () \<longrightarrow> readyState st1 \<noteq> 0) \<and>
     (connected_once st \<longrightarrow> connected_once st1)"
  by (auto simp: connectToDatabase_obtener_def connected_once_def split: if_splits option.splits)

lemma Resultado_save_cases:
  "Resultado_save e st uid p r t x = (res, st2) \<Longrightarrow>
     readyState st2 = readyState st \<and> established st2 = established st \<and>
     (res \<noteq> Inr () \<longrightarrow> docs st2 = docs st) \<and> (\<exists>more. docs st2 = docs st @ more)"
  by (auto simp: Resultado_save_def split: option.splits if_splits)


lemma store_provider_calls: "provider_calls (store fs w) = provider_calls w"
  by (induction fs arbitrary: w) (simp_all add: provider_calls_def)

lemma store_generate_calls: "generate_calls (store fs w) = generate_calls w"
  by (induction fs arbitrary: w) (simp_all add: generate_calls_def)

lemma store_unlinks: "unlinks p (store fs w) = unlinks p w"
  by (induction fs arbitrary: w) (simp_all add: unlinks_def)

lemma store_disk_keeps: "disk w p \<noteq> None \<Longrightarrow> disk (store fs w) p \<noteq> None"
  by (induction fs arbitrary: w) simp_all

lemma store_disk_has: "f \<in> set fs \<Longrightarrow> disk (store fs w) (filepath f) \<noteq> None"
proof (induction fs arbitrary: w)
  case Nil
  then show ?case by simp
next
  case (Cons g fs)
  show ?case
  proof (cases "f = g")
    case True
    then show ?thesis by (simp add: store_disk_keeps)
  next
    case False
    with Cons show ?thesis by simp
  qed
qed

lemma unlinkSync_generate_calls: "generate_calls (snd (unlinkSync p w)) = generate_calls w"
  by (simp add: unlinkSync_def generate_calls_def split: option.splits)

section \<open>The result store: saving and reading back\<close>










text \<open>
  Claim C2. The save handler answers 400 when a field of the payload is absent or null,
  and only then. The check of the code is \<open>!puntuacion || !respuestas || !totalPreguntas ||
  !examen\<close>, which also holds for the number \<open>0\<close>: a result with no correct answer, all
  four fields present, is answered 400 and nothing is stored.
\<close>

theorem guardar_rejects_zero_score:
  "guardar_resultado_handler example_env fresh zero_score_save =
     (Responded \<lparr>status = 400, body = ErrorBody FaltanDatos\<rparr>,
      \<lparr>readyState = 1, docs = [], attempts = 1, established = 1\<rparr>)"
  by (simp add: guardar_resultado_handler_def guardar_try_def connectToDatabase_def example_defs)

text \<open>
  The check as the code has it: with the database reachable and an object for a body, the
  answer is the 400 of the missing data exactly when one of the four values is falsy.
\<close>

lemma guardar_400_iff_falsy:
  assumes "method req = ''POST''" and "readyState st \<noteq> 0 \<or> connect_error e = None"
    and "reqbody req = JObj kvs"
  shows "(fst (guardar_resultado_handler e st req) =
            Responded \<lparr>status = 400, body = ErrorBody FaltanDatos\<rparr>) =
         (\<not> truthy (case map_of kvs ''puntuacion'' of None \<Rightarrow> JUndefined | Some v \<Rightarrow> v) \<or>
          \<not> truthy (case map_of kvs ''respuestas'' of None \<Rightarrow> JUndefined | Some v \<Rightarrow> v) \<or>
          \<not> truthy (case map_of kvs ''totalPreguntas'' of None \<Rightarrow> JUndefined | Some v \<Rightarrow> v) \<or>
          \<not> truthy (case map_of kvs ''examen'' of None \<Rightarrow> JUndefined | Some v \<Rightarrow> v))"
  using assms
  by (auto simp: guardar_resultado_handler_def guardar_try_def connectToDatabase_def Let_def
      split: prod.splits sum.splits option.splits)

text \<open>
  Claim C3. Every generated id is \<open>R_\<close> followed by exactly six characters of
  \<open>[A-Z0-9]\<close>. The code takes the characters 2 to 7 of \<open>Math.random().toString(36)\<close>, and
  there are fewer than six of them when the expansion of the random number is short:
  for the double \<open>1/2\<close> the string is \<open>0.i\<close> and the id is \<open>R_I\<close>.
\<close>

theorem generateUniqueId_short:
  "toString36 1 1 = Some ''0.i'' \<and> generateUniqueId ''0.i'' = ''R_I'' \<and>
   \<not> matches_shareId (generateUniqueId ''0.i'')"
  by (simp add: toString36_def digit36_def id_defs matches_shareId_def)

text \<open>The id has the six characters when the random number prints with six digits or more.\<close>

lemma upper_char_digit36: "is_digit36 c \<Longrightarrow> is_upper_alnum (upper_char c)"
  unfolding is_digit36_def is_upper_alnum_def upper_char_def
  by auto

lemma generateUniqueId_six_digits:
  assumes "6 \<le> length ds" and "list_all is_digit36 ds"
  shows "matches_shareId (generateUniqueId (''0.'' @ ds))"
proof -
  have "list_all is_digit36 (take 6 ds)"
    using assms(2) by (simp add: list_all_iff) (meson in_set_takeD)
  then have "list_all is_upper_alnum (map upper_char (take 6 ds))"
    by (simp add: list_all_iff upper_char_digit36)
  then show ?thesis using assms(1)
    by (simp add: matches_shareId_def generateUniqueId_def substring_def toUpperCase_def)
qed

lemma generateUniqueId_zero: "toString36 0 1 = Some ''0'' \<and> generateUniqueId ''0'' = ''R_''"
  by (simp add: toString36_def id_defs)

section \<open>The result store: lookups\<close>

text \<open>
  Claim C7. The GET handler never rejects: every exception of its \<open>try\<close> block is turned
  into an answer. For a GET request with a \<open>shareId\<close>, the database reachable and the
  collection under its unique index: when no stored document has this id the answer is
  404 with an error body and no document; when a stored document has it, the answer is
  200 with that whole document.
\<close>

theorem obtener_resultado_lookup:
  "(\<exists>res. fst (obtener_resultado_handler e st req) = Responded res) \<and>
   (method req = ''GET'' \<and> map_of (query req) ''shareId'' = Some sid \<and> sid \<noteq> [] \<and>
    (readyState st \<noteq> 0 \<or> connect_error e = None) \<and> distinct (map uniqueId (docs st)) \<longrightarrow>
      (sid \<notin> uniqueId ` set (docs st) \<longrightarrow>
         fst (obtener_resultado_handler e st req) =
           Responded \<lparr>status = 404, body = ErrorBody NoEncontrado\<rparr>) \<and>
      (\<forall>d. d \<in> set (docs st) \<and> uniqueId d = sid \<longrightarrow>
         fst (obtener_resultado_handler e st req) =
           Responded \<lparr>status = 200, body = Found d\<rparr>))"
proof -
  have never: "\<exists>res. fst (obtener_resultado_handler e st req) = Responded res"
    by (auto simp: obtener_resultado_handler_def Let_def split: prod.splits sum.splits)
  have look: "fst (obtener_resultado_handler e st req) =
      (case find (\<lambda>d. uniqueId d = sid) (docs st) of
         None \<Rightarrow> Responded \<lparr>status = 404, body = ErrorBody NoEncontrado\<rparr>
       | Some d \<Rightarrow> Responded \<lparr>status = 200, body = Found d\<rparr>)"
    if "method req = ''GET''" "map_of (query req) ''shareId'' = Some sid" "sid \<noteq> []"
       "readyState st \<noteq> 0 \<or> connect_error e = None"
    using that
    by (auto simp: obtener_resultado_handler_def obtener_try_def connectToDatabase_obtener_def
        findOne_def split: option.splits)
  have miss: "fst (obtener_resultado_handler e st req) =
      Responded \<lparr>status = 404, body = ErrorBody NoEncontrado\<rparr>"
    if "method req = ''GET''" "map_of (query req) ''shareId'' = Some sid" "sid \<noteq> []"
       "readyState st \<noteq> 0 \<or> connect_error e = None" "sid \<notin> uniqueId ` set (docs st)"
  proof -
    from that(5) have "find (\<lambda>d. uniqueId d = sid) (docs st) = None"
      by (simp add: find_None_iff_key)
    with look [OF that(1-4)] show ?thesis by simp
  qed
  have hit: "fst (obtener_resultado_handler e st req) =
      Responded \<lparr>status = 200, body = Found d\<rparr>"
    if "method req = ''GET''" "map_of (query req) ''shareId'' = Some sid" "sid \<noteq> []"
       "readyState st \<noteq> 0 \<or> connect_error e = None" "distinct (map uniqueId (docs st))"
       "d \<in> set (docs st)" "uniqueId d = sid" for d
  proof -
    from find_distinct_key [OF that(5,6)] that(7)
    have "find (\<lambda>y. uniqueId y = sid) (docs st) = Some d" by simp
    with look [OF that(1-4)] show ?thesis by simp
  qed
  from never miss hit show ?thesis by blast
qed

theorem obtener_resultado_lookup_witness:
  "method example_get_other = ''GET'' \<and>
   map_of (query example_get_other) ''shareId'' = Some ''R_000000'' \<and>
   ''R_000000'' \<notin> uniqueId ` set (docs example_saved) \<and>
   fst (obtener_resultado_handler example_env example_saved example_get_other) =
     Responded \<lparr>status = 404, body = ErrorBody NoEncontrado\<rparr> \<and>
   method example_get = ''GET'' \<and>
   map_of (query example_get) ''shareId'' = Some ''R_4FZYO8'' \<and>
   example_doc \<in> set (docs example_saved) \<and> uniqueId example_doc = ''R_4FZYO8'' \<and>
   fst (obtener_resultado_handler example_env example_saved example_get) =
     Responded \<lparr>status = 200, body = Found example_doc\<rparr>"
  using obtener_resultado_lookup [of example_env example_saved example_get_other "''R_000000''"]
    obtener_resultado_lookup [of example_env example_saved example_get "''R_4FZYO8''"]
  by (simp add: example_get_other_def example_get_def example_saved_def example_doc_def)

section \<open>The connection\<close>

lemma guardar_try_connected_once:
  "guardar_try e st req = (r, st') \<Longrightarrow> connected_once st \<Longrightarrow> connected_once st'"
  by (auto simp: guardar_try_def Let_def connected_once_def
      split: prod.splits sum.splits option.splits if_splits
      dest!: connectToDatabase_cases Resultado_save_cases)

lemma guardar_connected_once:
  "connected_once st \<Longrightarrow> connected_once (snd (guardar_resultado_handler e st req))"
  by (auto simp: guardar_resultado_handler_def split: prod.splits sum.splits
      dest: guardar_try_connected_once)

lemma obtener_connected_once:
  "connected_once st \<Longrightarrow> connected_once (snd (obtener_resultado_handler e st req))"
  by (auto simp: obtener_resultado_handler_def obtener_try_def Let_def
      split: prod.splits sum.splits option.splits
      dest: connectToDatabase_obtener_cases)

lemma run_connected_once:
  "connected_once st \<Longrightarrow> connected_once (run st invs)"
  unfolding run_def
proof (induction invs arbitrary: st)
  case Nil
  then show ?case by simp
next
  case (Cons i invs)
  have "connected_once (invoke st i)"
    using Cons.prems by (cases i) (simp_all add: guardar_connected_once obtener_connected_once)
  then show ?case using Cons.IH by simp
qed

text \<open>
  Claim C8. \<open>connectToDatabase\<close>, in both files, does nothing when the connection is
  already there: it returns without an exception and leaves the state as it was, the
  count of connection attempts included. So whatever the sequence of save and GET
  invocations in a process that has just started, and whatever the database answers to
  each of them, at most one connection is established.
\<close>

theorem connectToDatabase_idempotent:
  "(readyState st \<noteq> 0 \<longrightarrow>
      connectToDatabase e st = (Inr (), st) \<and> connectToDatabase_obtener e st = (Inr (), st))
   \<and> established (run fresh invs) \<le> 1"
proof -
  have "connected_once fresh" by (simp add: connected_once_def fresh_def)
  then have "connected_once (run fresh invs)" by (rule run_connected_once)
  then have "established (run fresh invs) \<le> 1" by (simp add: connected_once_def split: if_splits)
  then show ?thesis by (simp add: connectToDatabase_def connectToDatabase_obtener_def)
qed

theorem connectToDatabase_idempotent_witness:
  "readyState example_saved \<noteq> 0 \<and>
   connectToDatabase example_down example_saved = (Inr (), example_saved) \<and>
   connectToDatabase_obtener example_down example_saved = (Inr (), example_saved) \<and>
   established (run fresh [Guardar example_down example_save, Guardar example_env example_save,
      Obtener example_env example_get, Guardar example_env zero_score_save]) \<le> 1"
  using connectToDatabase_idempotent [of example_saved example_down
      "[Guardar example_down example_save, Guardar example_env example_save,
        Obtener example_env example_get, Guardar example_env zero_score_save]"]
  by (simp add: example_saved_def)

section \<open>The save handler: the order of its checks\<close>

lemma guardar_try_400:
  assumes "guardar_try e st req = (Inr res, st')" "status res = 400"
  shows "docs st' = docs st"
  using assms
  by (auto simp: guardar_try_def Let_def split: prod.splits sum.splits option.splits if_splits
      dest: connectToDatabase_cases)

text \<open>
  Claim C9. When the save handler answers 400, the collection is what it was before the
  request: no document was inserted.
\<close>

theorem guardar_400_inserts_nothing:
  assumes "guardar_resultado_handler e st req = (Responded res, st')" and "status res = 400"
  shows "docs st' = docs st"
  using assms
  by (auto simp: guardar_resultado_handler_def split: if_splits prod.splits sum.splits
      dest: guardar_try_400)

theorem guardar_400_inserts_nothing_witness:
  "guardar_resultado_handler example_env (fresh\<lparr>docs := [example_doc]\<rparr>) incomplete_save =
     (Responded \<lparr>status = 400, body = ErrorBody FaltanDatos\<rparr>, example_saved) \<and>
   status \<lparr>status = 400, body = ErrorBody FaltanDatos\<rparr> = 400 \<and>
   docs example_saved = docs (fresh\<lparr>docs := [example_doc]\<rparr>)"
proof -
  have h: "guardar_resultado_handler example_env (fresh\<lparr>docs := [example_doc]\<rparr>)
      incomplete_save =
     (Responded \<lparr>status = 400, body = ErrorBody FaltanDatos\<rparr>, example_saved)"
    by (simp add: guardar_resultado_handler_def guardar_try_def connectToDatabase_def
        example_defs)
  from guardar_400_inserts_nothing [OF h] h show ?thesis by simp
qed

text \<open>
  Claim C10. The save handler connects before it looks at the body: for a POST request in
  a process with no connection, when \<open>mongoose.connect\<close> rejects the answer is the 500 of
  the handler's \<open>catch\<close>, whatever the body, also one with missing fields; the only change
  of the state is the count of attempts.
\<close>

theorem guardar_connect_failure_first:
  assumes "method req = ''POST''" and "readyState st = 0" and "connect_error e = Some msg"
  shows "guardar_resultado_handler e st req =
           (Responded \<lparr>status = 500, body = ErrorDetails ErrorAlGuardar NoSePudoConectar\<rparr>,
            st\<lparr>attempts := attempts st + 1\<rparr>)"
  using assms
  by (simp add: guardar_resultado_handler_def guardar_try_def connectToDatabase_def)

theorem guardar_connect_failure_first_witness:
  "method incomplete_save = ''POST'' \<and> readyState fresh = 0 \<and>
   connect_error example_down = Some ''ECONNREFUSED'' \<and>
   guardar_resultado_handler example_down fresh incomplete_save =
     (Responded \<lparr>status = 500, body = ErrorDetails ErrorAlGuardar NoSePudoConectar\<rparr>,
      fresh\<lparr>attempts := 1\<rparr>)"
proof -
  have a: "method incomplete_save = ''POST''" "readyState fresh = 0"
    "connect_error example_down = Some ''ECONNREFUSED''"
    by (simp_all add: incomplete_save_def fresh_def example_down_def)
  from guardar_connect_failure_first [OF a] a show ?thesis by (simp add: fresh_def)
qed

section \<open>Exam generation: requests without material\<close>

text \<open>
  Claim C5. A request whose form carries no file under the field the handler reads
  (\<open>files\<close> in the direct-image and the multi-file versions, \<open>file\<close> in the OCR version) is
  answered 400 with the handler's no-material error when it is a POST, and whatever its
  method the run calls neither the generation provider nor the OCR provider.
\<close>

theorem no_material_rejected:
  assumes "mp_form req = Form flds files"
  shows "(map_of files ''files'' = None \<or> map_of files ''files'' = Some (FMany []) \<longrightarrow>
            provider_calls (snd (generar_examen_imagenes_handler sv w req)) = provider_calls w \<and>
            provider_calls (snd (generar_examen_handler sv w req)) = provider_calls w \<and>
            (mp_method req = ''POST'' \<longrightarrow>
               fst (generar_examen_imagenes_handler sv w req) =
                 Responded \<lparr>status = 400, body = ErrorBody NoSeEncontraronArchivos\<rparr> \<and>
               fst (generar_examen_handler sv w req) =
                 Responded \<lparr>status = 400, body = ErrorBody NingunArchivo\<rparr>))
       \<and> (map_of files ''file'' = None \<or> map_of files ''file'' = Some (FMany []) \<longrightarrow>
            provider_calls (snd (generar_examen_ocr_handler sv w req)) = provider_calls w \<and>
            (mp_method req = ''POST'' \<longrightarrow>
               fst (generar_examen_ocr_handler sv w req) =
                 Responded \<lparr>status = 400, body = ErrorBody NoArchivoClaveFile\<rparr>))"
proof -
  have a: "provider_calls (snd (generar_examen_imagenes_handler sv w req)) = provider_calls w \<and>
           (mp_method req = ''POST'' \<longrightarrow>
              fst (generar_examen_imagenes_handler sv w req) =
                Responded \<lparr>status = 400, body = ErrorBody NoSeEncontraronArchivos\<rparr>)"
    if "map_of files ''files'' = None \<or> map_of files ''files'' = Some (FMany [])"
    using that assms
    by (auto simp: generar_examen_imagenes_handler_def imagenes_try_def formidable_parse_def
        store_provider_calls)
  have b: "provider_calls (snd (generar_examen_handler sv w req)) = provider_calls w \<and>
           (mp_method req = ''POST'' \<longrightarrow>
              fst (generar_examen_handler sv w req) =
                Responded \<lparr>status = 400, body = ErrorBody NingunArchivo\<rparr>)"
    if "map_of files ''files'' = None \<or> map_of files ''files'' = Some (FMany [])"
    using that assms
    by (auto simp: generar_examen_handler_def uploadedFiles_of_def formidable_parse_def
        store_provider_calls)
  have c: "provider_calls (snd (generar_examen_ocr_handler sv w req)) = provider_calls w \<and>
           (mp_method req = ''POST'' \<longrightarrow>
              fst (generar_examen_ocr_handler sv w req) =
                Responded \<lparr>status = 400, body = ErrorBody NoArchivoClaveFile\<rparr>)"
    if "map_of files ''file'' = None \<or> map_of files ''file'' = Some (FMany [])"
    using that assms
    by (auto simp: generar_examen_ocr_handler_def ocr_try_def parseForm_def formidable_parse_def
        ocr_finally_def store_provider_calls)
  from a b c show ?thesis by blast
qed

theorem no_material_rejected_witness:
  "mp_method empty_upload = ''POST'' \<and> mp_form empty_upload = Form [] [] \<and>
   map_of ([] :: (string \<times> fval) list) ''files'' = None \<and>
   map_of ([] :: (string \<times> fval) list) ''file'' = None \<and>
   fst (generar_examen_imagenes_handler (example_services 60) empty_world empty_upload) =
     Responded \<lparr>status = 400, body = ErrorBody NoSeEncontraronArchivos\<rparr> \<and>
   fst (generar_examen_handler (example_services 60) empty_world empty_upload) =
     Responded \<lparr>status = 400, body = ErrorBody NingunArchivo\<rparr> \<and>
   fst (generar_examen_ocr_handler (example_services 60) empty_world empty_upload) =
     Responded \<lparr>status = 400, body = ErrorBody NoArchivoClaveFile\<rparr> \<and>
   provider_calls (snd (generar_examen_imagenes_handler (example_services 60) empty_world
     empty_upload)) = [] \<and>
   provider_calls (snd (generar_examen_handler (example_services 60) empty_world
     empty_upload)) = [] \<and>
   provider_calls (snd (generar_examen_ocr_handler (example_services 60) empty_world
     empty_upload)) = []"
proof -
  have a: "mp_form empty_upload = Form [] []" and m: "mp_method empty_upload = ''POST''"
    by (simp_all add: empty_upload_def)
  have e: "provider_calls empty_world = []"
    by (simp add: provider_calls_def empty_world_def)
  from no_material_rejected [OF a, of "example_services 60" empty_world] a m e
  show ?thesis by simp
qed

section \<open>Exam generation: the minimum of extracted text\<close>

text \<open>
  Claim C6. In the OCR version, for a POST request with a file under \<open>file\<close> and an OCR
  call that resolves: when the extracted text is absent or shorter than 50 characters,
  the answer is the insufficient-text error (status 500) and the run makes no generation
  call; when the text has 50 characters or more, the run makes the generation call, with
  the prompt built from the exam type and the text.
\<close>

theorem ocr_minimum_text:
  assumes "mp_method req = ''POST''" and "mp_form req = Form flds files"
    and "map_of files ''file'' = Some (FMany (f # rest))"
    and "disk (store (all_uploads files) w) (filepath f) = Some buf"
    and "documentTextDetection sv buf = Resolves studyText"
  shows "(studyText = None \<or> (\<exists>s. studyText = Some s \<and> length s < 50) \<longrightarrow>
            fst (generar_examen_ocr_handler sv w req) =
              Responded \<lparr>status = 500, body = ErrorBody OcrFallo\<rparr> \<and>
            generate_calls (snd (generar_examen_ocr_handler sv w req)) = generate_calls w)
       \<and> (\<forall>s. studyText = Some s \<and> 50 \<le> length s \<longrightarrow>
            generate_calls (snd (generar_examen_ocr_handler sv w req)) =
              generate_calls w @
                [GenerateCalled ''gemini-2.5-pro''
                   [Text (MaterialPrompt
                      (or_default (case map_of flds ''exam_type'' of
                                     None \<Rightarrow> None | Some v \<Rightarrow> field_index0 v)) s)]])"
proof -
  let ?w1 = "store (all_uploads files) w"
  let ?ty = "or_default (case map_of flds ''exam_type'' of None \<Rightarrow> None | Some v \<Rightarrow> field_index0 v)"
  have t: "ocr_try sv w req = ((fst (ocr_steps sv ?w1 (filepath f) ?ty), Some (filepath f)),
             snd (ocr_steps sv ?w1 (filepath f) ?ty))"
    using assms(2,3)
    by (simp add: ocr_try_def parseForm_def formidable_parse_def split: prod.splits)
  have h: "generar_examen_ocr_handler sv w req =
      (Responded (case fst (ocr_steps sv ?w1 (filepath f) ?ty) of
                    Inl err \<Rightarrow> \<lparr>status = 500, body = ErrorDetails ErrorServerless err\<rparr>
                  | Inr res \<Rightarrow> res),
       ocr_finally (Some (filepath f)) (snd (ocr_steps sv ?w1 (filepath f) ?ty)))"
    using assms(1) by (simp add: generar_examen_ocr_handler_def t)
  have g: "generate_calls (ocr_finally p x) = generate_calls x" for p x
    by (simp add: ocr_finally_def unlinkSync_generate_calls)
  have short: "ocr_steps sv ?w1 (filepath f) ?ty =
      (Inr \<lparr>status = 500, body = ErrorBody OcrFallo\<rparr>,
       ?w1\<lparr>log := log ?w1 @ [ReadFile (filepath f), OcrCalled buf]\<rparr>)"
    if "studyText = None \<or> (\<exists>s. studyText = Some s \<and> length s < 50)"
    using that assms(4,5)
    by (auto simp: ocr_steps_def readFile_def call_documentTextDetection_def)
  have long: "generate_calls (snd (ocr_steps sv ?w1 (filepath f) ?ty)) =
      generate_calls w @ [GenerateCalled ''gemini-2.5-pro'' [Text (MaterialPrompt ?ty s)]]"
    if "studyText = Some s" "50 \<le> length s" for s
    using that assms(4,5) store_generate_calls [of "all_uploads files" w]
    by (auto simp: ocr_steps_def readFile_def call_documentTextDetection_def
        call_generateContent_def generate_calls_def split: settled.splits option.splits)
  have short_calls: "generate_calls (snd (ocr_steps sv ?w1 (filepath f) ?ty)) = generate_calls w"
    if "studyText = None \<or> (\<exists>s. studyText = Some s \<and> length s < 50)"
    using store_generate_calls [of "all_uploads files" w]
    by (simp add: short [OF that] generate_calls_def)
  have short_res: "fst (generar_examen_ocr_handler sv w req) =
      Responded \<lparr>status = 500, body = ErrorBody OcrFallo\<rparr>"
    if "studyText = None \<or> (\<exists>s. studyText = Some s \<and> length s < 50)"
    by (simp add: h short [OF that])
  show ?thesis
    using short_calls short_res long by (simp add: h g)
qed

theorem ocr_minimum_text_witness:
  "fst (generar_examen_ocr_handler (example_services 49) empty_world example_upload_file) =
     Responded \<lparr>status = 500, body = ErrorBody OcrFallo\<rparr> \<and>
   generate_calls (snd (generar_examen_ocr_handler (example_services 49) empty_world
     example_upload_file)) = [] \<and>
   generate_calls (snd (generar_examen_ocr_handler (example_services 50) empty_world
     example_upload_file)) =
     [GenerateCalled ''gemini-2.5-pro''
        [Text (MaterialPrompt default_examType (replicate 50 (CHR ''a'')))]]"
proof -
  have a: "mp_method example_upload_file = ''POST''"
    "mp_form example_upload_file = Form [] [(''file'', FMany [example_image])]"
    "map_of [(''file'', FMany [example_image])] ''file'' = Some (FMany (example_image # []))"
    "disk (store (all_uploads [(''file'', FMany [example_image])]) empty_world)
       (filepath example_image) = Some ''PNG''"
    by (simp_all add: upload_defs all_uploads_def)
  have o: "documentTextDetection (example_services n) ''PNG'' =
      Resolves (Some (replicate n (CHR ''a'')))" for n
    by (simp add: example_services_def)
  have e: "generate_calls empty_world = []"
    by (simp add: generate_calls_def empty_world_def)
  from ocr_minimum_text [OF a o, of 49] ocr_minimum_text [OF a o, of 50] e
  show ?thesis by (simp add: or_default_def)
qed

section \<open>Exam generation: the temporary files\<close>

text \<open>
  Claim C4. In every exam-generation handler each temporary file of an upload is deleted
  exactly once on every exit path, so that no run leaves an uploaded file on disk. The
  direct-image version has no \<open>unlink\<close> at all: a run that reads one uploaded image and
  answers 200 with the exam leaves the image in the temporary directory, deleted zero
  times.
\<close>

theorem imagenes_leaves_upload:
  "fst (generar_examen_imagenes_handler (example_services 60) empty_world example_upload) =
     Responded \<lparr>status = 200, body = MessageExamen (JObj [])\<rparr> \<and>
   disk (snd (generar_examen_imagenes_handler (example_services 60) empty_world example_upload))
     ''/tmp/a1'' = Some ''PNG'' \<and>
   unlinks ''/tmp/a1''
     (snd (generar_examen_imagenes_handler (example_services 60) empty_world example_upload)) = 0"
  by (simp add: generar_examen_imagenes_handler_def imagenes_try_def formidable_parse_def
      all_uploads_def upload_defs readFile_def call_generateContent_def or_default_def
      trim_def is_space_def Let_def unlinks_def)

text \<open>
  The two versions that do delete look at one field only, and their no-material answer
  comes before any deletion: a file uploaded under the name the other version reads is
  written to disk by formidable, answered 400, and left there.
\<close>

lemma generar_examen_other_field_leaves_upload:
  "fst (generar_examen_handler (example_services 60) empty_world example_upload_file) =
     Responded \<lparr>status = 400, body = ErrorBody NingunArchivo\<rparr> \<and>
   disk (snd (generar_examen_handler (example_services 60) empty_world example_upload_file))
     ''/tmp/a1'' = Some ''PNG''"
  by (simp add: generar_examen_handler_def formidable_parse_def uploadedFiles_of_def
      all_uploads_def upload_defs Let_def)

lemma ocr_other_field_leaves_upload:
  "fst (generar_examen_ocr_handler (example_services 60) empty_world example_upload) =
     Responded \<lparr>status = 400, body = ErrorBody NoArchivoClaveFile\<rparr> \<and>
   disk (snd (generar_examen_ocr_handler (example_services 60) empty_world example_upload))
     ''/tmp/a1'' = Some ''PNG''"
  by (simp add: generar_examen_ocr_handler_def ocr_try_def parseForm_def formidable_parse_def
      ocr_finally_def all_uploads_def upload_defs Let_def)

text \<open>
  What the handlers keep and what they delete, for every request. None of the steps before
  a \<open>finally\<close> block touches the disk or deletes a file.
\<close>

lemma upload_in_all:
  "map_of files k = Some v \<Longrightarrow> f \<in> set (files_of v) \<Longrightarrow> f \<in> set (all_uploads files)"
  by (auto simp: all_uploads_def dest!: map_of_SomeD intro!: bexI [of _ "(k, v)"])

lemma unlinks_log_append:
  "unlinks p (w\<lparr>log := log w @ [ev]\<rparr>) = unlinks p w + (if ev = Unlinked p then 1 else 0)"
  by (simp add: unlinks_def)

lemma readFile_keeps:
  "readFile q w = (r, w') \<Longrightarrow> disk w' = disk w \<and> unlinks p w' = unlinks p w"
  by (auto simp: readFile_def unlinks_log_append split: option.splits)

lemma call_generateContent_keeps:
  "call_generateContent sv m c w = (r, w') \<Longrightarrow> disk w' = disk w \<and> unlinks p w' = unlinks p w"
  by (auto simp: call_generateContent_def unlinks_log_append)

lemma call_documentTextDetection_keeps:
  "call_documentTextDetection sv b w = (r, w') \<Longrightarrow> disk w' = disk w \<and> unlinks p w' = unlinks p w"
  by (auto simp: call_documentTextDetection_def unlinks_log_append)

lemma imageParts_of_keeps:
  "imageParts_of sv fs w = (r, w') \<Longrightarrow> disk w' = disk w \<and> unlinks p w' = unlinks p w"
proof (induction fs arbitrary: w r w')
  case Nil
  then show ?case by simp
next
  case (Cons f fs)
  show ?case
  proof (cases "filepath f \<noteq> [] \<and> truthy_str (mimetype f)")
    case False
    with Cons show ?thesis by auto
  next
    case True
    obtain a w1 where rd: "readFile (filepath f) w = (a, w1)" by (cases "readFile (filepath f) w")
    note k1 = readFile_keeps [OF rd, of p]
    show ?thesis
    proof (cases a)
      case (Inl err)
      with Cons.prems True rd k1 show ?thesis by auto
    next
      case (Inr buf)
      obtain b w2 where rec: "imageParts_of sv fs w1 = (b, w2)" by (cases "imageParts_of sv fs w1")
      from Cons.IH [OF rec] k1 have "disk w2 = disk w \<and> unlinks p w2 = unlinks p w" by simp
      with Cons.prems True rd Inr rec show ?thesis by (cases b) auto
    qed
  qed
qed

lemma imagenes_try_keeps:
  assumes "imagenes_try sv w req = (r, w')" and "mp_form req = Form flds files"
  shows "disk w' = disk (store (all_uploads files) w) \<and> unlinks p w' = unlinks p w"
proof -
  let ?w1 = "store (all_uploads files) w"
  let ?inputFiles = "case map_of files ''files'' of None \<Rightarrow> [] | Some (FMany fs) \<Rightarrow> fs | Some (FOne f) \<Rightarrow> [f]"
  show ?thesis
  proof (cases "length ?inputFiles = 0")
    case True
    with assms show ?thesis
      by (auto simp: imagenes_try_def formidable_parse_def Let_def store_unlinks)
  next
    case False
    obtain a w2 where ip: "imageParts_of sv ?inputFiles ?w1 = (a, w2)"
      by (cases "imageParts_of sv ?inputFiles ?w1")
    from imageParts_of_keeps [OF ip, of p]
    have k2: "disk w2 = disk ?w1" "unlinks p w2 = unlinks p w" by (simp_all add: store_unlinks)
    show ?thesis
    proof (cases a)
      case (Inl err)
      with assms False ip k2 show ?thesis
        by (auto simp: imagenes_try_def formidable_parse_def Let_def)
    next
      case (Inr ps)
      let ?ty = "or_default (case map_of flds ''exam_type'' of None \<Rightarrow> None | Some v \<Rightarrow> first_or_self v)"
      obtain g w3 where gc: "call_generateContent sv ''gemini-2.5-flash-preview-09-2025''
          (ps @ [Text (UserPrompt ?ty)]) w2 = (g, w3)"
        by (cases "call_generateContent sv ''gemini-2.5-flash-preview-09-2025''
          (ps @ [Text (UserPrompt ?ty)]) w2")
      from call_generateContent_keeps [OF gc, of p] k2
      have k3: "disk w3 = disk ?w1" "unlinks p w3 = unlinks p w" by simp_all
      from assms False ip Inr gc have "w' = w3"
        by (auto simp: imagenes_try_def formidable_parse_def Let_def
            split: settled.splits option.splits)
      with k3 show ?thesis by simp
    qed
  qed
qed

text \<open>
  The direct-image version deletes nothing, whatever the request and the providers, and
  every file of a parsed form is on disk when it has answered.
\<close>

lemma imagenes_never_unlinks:
  "unlinks p (snd (generar_examen_imagenes_handler sv w req)) = unlinks p w"
proof (cases "mp_method req = ''POST''")
  case False
  then show ?thesis by (simp add: generar_examen_imagenes_handler_def)
next
  case True
  obtain r w' where t: "imagenes_try sv w req = (r, w')" by (cases "imagenes_try sv w req")
  have "unlinks p w' = unlinks p w"
  proof (cases "mp_form req")
    case (FormFails msg)
    with t show ?thesis by (simp add: imagenes_try_def formidable_parse_def)
  next
    case (Form flds files)
    from imagenes_try_keeps [OF t Form] show ?thesis by simp
  qed
  with True t show ?thesis
    by (cases r) (simp_all add: generar_examen_imagenes_handler_def)
qed

lemma imagenes_keeps_uploads:
  assumes "mp_method req = ''POST''" and "mp_form req = Form flds files"
    and "f \<in> set (all_uploads files)"
  shows "disk (snd (generar_examen_imagenes_handler sv w req)) (filepath f) \<noteq> None"
proof -
  obtain r w' where t: "imagenes_try sv w req = (r, w')" by (cases "imagenes_try sv w req")
  from imagenes_try_keeps [OF t assms(2)] store_disk_has [OF assms(3)]
  have "disk w' (filepath f) \<noteq> None" by simp
  with assms(1) t show ?thesis
    by (cases r) (simp_all add: generar_examen_imagenes_handler_def)
qed

text \<open>
  The OCR version deletes the file it read, the first one under \<open>file\<close>, exactly once,
  whatever the providers answer and whichever way the \<open>try\<close> block is left.
\<close>

lemma unlinkSync_present:
  assumes "disk w p = Some buf"
  shows "unlinkSync p w = (Inr (), w\<lparr>disk := (disk w)(p := None), log := log w @ [Unlinked p]\<rparr>)"
  using assms by (simp add: unlinkSync_def)

lemma ocr_steps_keeps:
  assumes "ocr_steps sv w q ty = (r, w')"
  shows "disk w' = disk w \<and> unlinks p w' = unlinks p w"
proof -
  obtain a w1 where rd: "readFile q w = (a, w1)" by (cases "readFile q w")
  note k1 = readFile_keeps [OF rd, of p]
  show ?thesis
  proof (cases a)
    case (Inl err)
    with assms rd k1 show ?thesis by (auto simp: ocr_steps_def)
  next
    case (Inr buf)
    obtain b w2 where oc: "call_documentTextDetection sv buf w1 = (b, w2)"
      by (cases "call_documentTextDetection sv buf w1")
    from call_documentTextDetection_keeps [OF oc, of p] k1
    have k2: "disk w2 = disk w" "unlinks p w2 = unlinks p w" by simp_all
    show ?thesis
    proof (cases b)
      case (Rejects msg)
      with assms rd Inr oc k2 show ?thesis by (auto simp: ocr_steps_def)
    next
      case (Resolves studyText)
      show ?thesis
      proof (cases "\<not> truthy_str studyText \<or> length (the studyText) < 50")
        case True
        with assms rd Inr oc Resolves k2 show ?thesis by (auto simp: ocr_steps_def)
      next
        case False
        obtain g w3 where gc: "call_generateContent sv ''gemini-2.5-pro''
            [Text (MaterialPrompt ty (the studyText))] w2 = (g, w3)"
          by (cases "call_generateContent sv ''gemini-2.5-pro''
            [Text (MaterialPrompt ty (the studyText))] w2")
        from call_generateContent_keeps [OF gc, of p] k2
        have k3: "disk w3 = disk w" "unlinks p w3 = unlinks p w" by simp_all
        from assms rd Inr oc Resolves False gc have "w' = w3"
          by (auto simp: ocr_steps_def split: settled.splits option.splits)
        with k3 show ?thesis by simp
      qed
    qed
  qed
qed

lemma ocr_deletes_its_file:
  assumes "mp_method req = ''POST''" and "mp_form req = Form flds files"
    and "map_of files ''file'' = Some (FMany (f # rest))" and "filepath f \<noteq> []"
  shows "disk (snd (generar_examen_ocr_handler sv w req)) (filepath f) = None \<and>
         unlinks (filepath f) (snd (generar_examen_ocr_handler sv w req)) =
           unlinks (filepath f) w + 1"
proof -
  let ?w1 = "store (all_uploads files) w"
  let ?ty = "or_default (case map_of flds ''exam_type'' of None \<Rightarrow> None | Some v \<Rightarrow> field_index0 v)"
  obtain r w2 where st: "ocr_steps sv ?w1 (filepath f) ?ty = (r, w2)"
    by (cases "ocr_steps sv ?w1 (filepath f) ?ty")
  have t: "ocr_try sv w req = ((r, Some (filepath f)), w2)"
    using assms(2,3) st by (simp add: ocr_try_def parseForm_def formidable_parse_def)
  have "f \<in> set (all_uploads files)"
    using upload_in_all [OF assms(3), of f] by simp
  from store_disk_has [OF this, of w] obtain buf where "disk ?w1 (filepath f) = Some buf" by auto
  with ocr_steps_keeps [OF st, of "filepath f"]
  have k: "disk w2 (filepath f) = Some buf" "unlinks (filepath f) w2 = unlinks (filepath f) w"
    by (simp_all add: store_unlinks)
  have "snd (generar_examen_ocr_handler sv w req) = ocr_finally (Some (filepath f)) w2"
    using assms(1) t by (simp add: generar_examen_ocr_handler_def)
  with k assms(4) show ?thesis
    by (simp add: ocr_finally_def unlinkSync_present [OF k(1)] unlinks_def)
qed

text \<open>
  The multi-file version, for files under \<open>files\<close> with distinct paths: it answers, and
  each of them is deleted exactly once, whatever the providers answer.
\<close>

lemma prompt_parts_keeps:
  "prompt_parts sv fs w = (r, w') \<Longrightarrow> disk w' = disk w \<and> unlinks p w' = unlinks p w"
proof (induction sv fs w arbitrary: r w' rule: prompt_parts.induct)
  case (1 sv w)
  then show ?case by simp
next
  case (2 sv fs w)
  then show ?case by simp
next
  case (3 sv f fs w)
  show ?case
  proof (cases "filepath f \<noteq> []")
    case False
    with 3 show ?thesis by auto
  next
    case True
    obtain a w1 where rd: "readFile (filepath f) w = (a, w1)" by (cases "readFile (filepath f) w")
    note k1 = readFile_keeps [OF rd, of p]
    show ?thesis
    proof (cases a)
      case (Inl err)
      with "3.prems" True rd k1 show ?thesis by auto
    next
      case (Inr buf)
      obtain b w2 where rec: "prompt_parts sv fs w1 = (b, w2)" by (cases "prompt_parts sv fs w1")
      from "3.IH"(1) [OF True rd [symmetric] Inr rec] k1
      have "disk w2 = disk w \<and> unlinks p w2 = unlinks p w" by simp
      with "3.prems" True rd Inr rec show ?thesis by (cases b) auto
    qed
  qed
qed

lemma generar_examen_try_keeps:
  assumes "generar_examen_try sv w ups ty = (r, w')"
  shows "disk w' = disk w \<and> unlinks p w' = unlinks p w"
proof -
  obtain a w1 where pp: "prompt_parts sv ups w = (a, w1)" by (cases "prompt_parts sv ups w")
  note k1 = prompt_parts_keeps [OF pp, of p]
  show ?thesis
  proof (cases a)
    case (Inl err)
    with assms pp k1 show ?thesis by (auto simp: generar_examen_try_def)
  next
    case (Inr ps)
    obtain g w2 where gc: "call_generateContent sv ''gemini-2.5-flash''
        (ps @ [Text (TutorPrompt ty)]) w1 = (g, w2)"
      by (cases "call_generateContent sv ''gemini-2.5-flash'' (ps @ [Text (TutorPrompt ty)]) w1")
    from call_generateContent_keeps [OF gc, of p] k1
    have k2: "disk w2 = disk w" "unlinks p w2 = unlinks p w" by simp_all
    from assms pp Inr gc have "w' = w2"
      by (auto simp: generar_examen_try_def split: settled.splits option.splits)
    with k2 show ?thesis by simp
  qed
qed

lemma unlink_each_all:
  assumes "distinct (map filepath fs)"
    and "\<forall>f\<in>set fs. filepath f \<noteq> [] \<and> disk w (filepath f) \<noteq> None"
  shows "\<exists>w'. unlink_each (map Some fs) w = (Inr (), w') \<and>
           (\<forall>q. disk w' q = (if q \<in> filepath ` set fs then None else disk w q)) \<and>
           (\<forall>q. unlinks q w' = unlinks q w + (if q \<in> filepath ` set fs then 1 else 0))"
  using assms
proof (induction fs arbitrary: w)
  case Nil
  then show ?case by simp
next
  case (Cons f fs)
  from Cons.prems obtain buf where on: "disk w (filepath f) = Some buf" and ne: "filepath f \<noteq> []"
    by auto
  let ?w1 = "w\<lparr>disk := (disk w)(filepath f := None), log := log w @ [Unlinked (filepath f)]\<rparr>"
  have u: "unlinkSync (filepath f) w = (Inr (), ?w1)" by (rule unlinkSync_present [OF on])
  have d: "distinct (map filepath fs)" and nf: "filepath f \<notin> filepath ` set fs"
    using Cons.prems(1) by auto
  have "\<forall>g\<in>set fs. filepath g \<noteq> [] \<and> disk ?w1 (filepath g) \<noteq> None"
  proof
    fix g assume g: "g \<in> set fs"
    with nf have "filepath g \<noteq> filepath f" by (metis imageI)
    with g Cons.prems(2) show "filepath g \<noteq> [] \<and> disk ?w1 (filepath g) \<noteq> None" by simp
  qed
  from Cons.IH [OF d this] obtain w' where
    r: "unlink_each (map Some fs) ?w1 = (Inr (), w')"
    and dk: "\<forall>q. disk w' q = (if q \<in> filepath ` set fs then None else disk ?w1 q)"
    and ul: "\<forall>q. unlinks q w' = unlinks q ?w1 + (if q \<in> filepath ` set fs then 1 else 0)"
    by blast
  have "unlink_each (map Some (f # fs)) w = (Inr (), w')"
    using ne u r by simp
  moreover have "\<forall>q. disk w' q = (if q \<in> filepath ` set (f # fs) then None else disk w q)"
    using dk by auto
  moreover have "\<forall>q. unlinks q w' = unlinks q w + (if q \<in> filepath ` set (f # fs) then 1 else 0)"
    using ul nf by (auto simp: unlinks_def)
  ultimately show ?case by blast
qed

lemma generar_examen_deletes_files:
  assumes "mp_method req = ''POST''" and "mp_form req = Form flds files"
    and "map_of files ''files'' = Some (FMany fs)" and "fs \<noteq> []"
    and "distinct (map filepath fs)" and "\<forall>f\<in>set fs. filepath f \<noteq> []"
  shows "(\<exists>res. fst (generar_examen_handler sv w req) = Responded res) \<and>
         (\<forall>f\<in>set fs. disk (snd (generar_examen_handler sv w req)) (filepath f) = None \<and>
            unlinks (filepath f) (snd (generar_examen_handler sv w req)) =
              unlinks (filepath f) w + 1)"
proof -
  let ?w1 = "store (all_uploads files) w"
  let ?ty = "or_default (case map_of flds ''exam_type'' of None \<Rightarrow> None | Some v \<Rightarrow> field_index0 v)"
  have up: "uploadedFiles_of files = map Some fs"
    using assms(3) by (simp add: uploadedFiles_of_def)
  obtain r w2 where t: "generar_examen_try sv ?w1 (map Some fs) ?ty = (r, w2)"
    by (cases "generar_examen_try sv ?w1 (map Some fs) ?ty")
  have k: "disk w2 = disk ?w1" "\<And>p. unlinks p w2 = unlinks p w"
    using generar_examen_try_keeps [OF t] by (simp_all add: store_unlinks)
  have "\<forall>f\<in>set fs. filepath f \<noteq> [] \<and> disk w2 (filepath f) \<noteq> None"
  proof
    fix f assume f: "f \<in> set fs"
    then have "f \<in> set (all_uploads files)"
      using upload_in_all [OF assms(3), of f] by simp
    from store_disk_has [OF this, of w] f assms(6) k(1)
    show "filepath f \<noteq> [] \<and> disk w2 (filepath f) \<noteq> None" by simp
  qed
  from unlink_each_all [OF assms(5) this] obtain w3 where
    u: "unlink_each (map Some fs) w2 = (Inr (), w3)"
    and dk: "\<forall>q. disk w3 q = (if q \<in> filepath ` set fs then None else disk w2 q)"
    and ul: "\<forall>q. unlinks q w3 = unlinks q w2 + (if q \<in> filepath ` set fs then 1 else 0)"
    by blast
  have nonempty: "length (map Some fs) \<noteq> 0" "hd (map Some fs) = Some (hd fs)"
    using assms(4) by (simp_all add: hd_map)
  have h: "generar_examen_handler sv w req =
      (Responded (case r of
                    Inl apiError \<Rightarrow> \<lparr>status = 500, body = ErrorDetails ErrorGemini apiError\<rparr>
                  | Inr ok \<Rightarrow> ok), w3)"
    using assms(1,2) up t u nonempty
    by (simp add: generar_examen_handler_def formidable_parse_def Let_def)
  show ?thesis using dk ul k(2) by (simp add: h)
qed

text \<open>A second file under \<open>file\<close> is not the handler's \<open>filePath\<close>: it stays.\<close>

lemma ocr_second_file_left:
  "disk (snd (generar_examen_ocr_handler (example_services 60) empty_world
      \<lparr>mp_method = ''POST'',
       mp_form = Form [] [(''file'', FMany [example_image,
          \<lparr>filepath = ''/tmp/a2'', mimetype = Some ''image/png'', content = ''PNG2''\<rparr>])]\<rparr>))
     ''/tmp/a2'' = Some ''PNG2''"
  by (simp add: generar_examen_ocr_handler_def ocr_try_def parseForm_def formidable_parse_def
      ocr_finally_def ocr_steps_def all_uploads_def upload_defs Let_def readFile_def
      call_documentTextDetection_def call_generateContent_def unlinkSync_def or_default_def)

end
